theory Spec2Isabelle
  imports Main "HOL-Library.Word" "HOL-Library.Sublist"
begin

section \<open>Shared data: errors, headers, token counts\<close>

text \<open>
  Go's \<open>int\<close> is a 64-bit two's-complement integer on the platforms the relay is built
  for, and \<open>int64\<close> is one everywhere; \<open>+\<close> wraps around. Both are 64-bit words here.
  A \<open>[]byte\<close> and a Go \<open>string\<close> are byte sequences.
\<close>

type_synonym go_int = "64 word"
type_synonym int64 = "64 word"
type_synonym bytes = string

text \<open>
  Error values. \<open>ErrNew msg\<close> is \<open>errors.New(msg)\<close>, also the value of
  \<open>errors.Errorf\<close> once its format is expanded, and any error a library hands back,
  known by its message. \<open>ErrWrap e msg\<close> is \<open>errors.Wrap(e, msg)\<close>.
\<close>

datatype err = ErrNew string | ErrWrap err string

text \<open>\<open>err.Error()\<close>: a wrapped error prints its message, a colon and its cause.\<close>

fun Error :: "err \<Rightarrow> string" where
  "Error (ErrNew msg) = msg"
| "Error (ErrWrap e msg) = msg @ '': '' @ Error e"

text \<open>
  A call either returns or panics (a nil dereference unwinds the handler).
\<close>

datatype 'a outcome = Returned 'a | Panicked

record ErrorWithStatusCode =
  StatusCode :: nat
  Message :: string

record Usage =
  PromptTokens :: go_int
  CompletionTokens :: go_int
  TotalTokens :: go_int

section \<open>relay/channel/common.go\<close>

text \<open>
  \<open>http.Header\<close> is a map from canonical header names to value lists. \<open>Get\<close> returns
  the first value of the key, or the empty string when the key is absent or its list is
  empty; \<open>Set\<close> replaces the list by the single value. The two keys used below,
  \<open>Content-Type\<close> and \<open>Accept\<close>, are already in canonical form.
\<close>

type_synonym Header = "string \<rightharpoonup> string list"

definition Header_Get :: "Header \<Rightarrow> string \<Rightarrow> string" where
  "Header_Get h k = (case h k of None \<Rightarrow> [] | Some [] \<Rightarrow> [] | Some (v # _) \<Rightarrow> v)"

definition Header_Set :: "Header \<Rightarrow> string \<Rightarrow> string \<Rightarrow> Header" where
  "Header_Set h k v = h(k \<mapsto> [v])"

text \<open>
  \<open>SetupCommonRequestHeader(c, req, meta)\<close>: \<open>inbound\<close> is \<open>c.Request.Header\<close>,
  \<open>hdr\<close> is \<open>req.Header\<close> (returned updated), \<open>IsStream\<close> is \<open>meta.IsStream\<close>.
\<close>

definition SetupCommonRequestHeader :: "Header \<Rightarrow> Header \<Rightarrow> bool \<Rightarrow> Header" where
  "SetupCommonRequestHeader inbound hdr IsStream =
     (let hdr1 = Header_Set hdr ''Content-Type'' (Header_Get inbound ''Content-Type'');
          hdr2 = Header_Set hdr1 ''Accept'' (Header_Get inbound ''Accept'')
      in if IsStream \<and> Header_Get inbound ''Accept'' = []
         then Header_Set hdr2 ''Accept'' ''text/event-stream''
         else hdr2)"

text \<open>
  The two bodies \<open>DoRequest\<close> closes. \<open>req_Body\<close> is \<open>req.Body\<close>: \<open>None\<close> is a nil
  body (a request built without one), \<open>Some n\<close> a body on which \<open>Close\<close> has been called
  \<open>n\<close> times. \<open>inbound_Body\<close> counts the \<open>Close\<close> calls on \<open>c.Request.Body\<close>,
  which a server request always has.
\<close>

record bodies =
  req_Body :: "nat option"
  inbound_Body :: nat

text \<open>
  \<open>DoRequest(c, req)\<close>. The pair \<open>(resp, err)\<close> is what \<open>util.HTTPClient.Do(req)\<close>
  returned (\<open>None\<close> is nil) and \<open>b\<close> the state of the two bodies at that moment.
  The result is the returned pair and the bodies afterwards. Calling \<open>Close\<close> on a nil
  \<open>req.Body\<close> is a nil dereference.
\<close>

definition DoRequest ::
  "'resp option \<times> err option \<Rightarrow> bodies \<Rightarrow> ('resp option \<times> err option) outcome \<times> bodies" where
  "DoRequest do_result b =
     (case do_result of (resp, err) \<Rightarrow>
        (case err of Some e \<Rightarrow> (Returned (None, Some e), b)
         | None \<Rightarrow>
        (case resp of None \<Rightarrow> (Returned (None, Some (ErrNew ''resp is nil'')), b)
         | Some r \<Rightarrow>
        (case req_Body b of None \<Rightarrow> (Panicked, b)
         | Some n \<Rightarrow>
            (Returned (Some r, None),
             b\<lparr>req_Body := Some (Suc n), inbound_Body := Suc (inbound_Body b)\<rparr>)))))"

section \<open>relay/adaptor/aws/main.go: credentials and model names\<close>

text \<open>\<open>model.Channel\<close>: the fields the adaptor reads. \<open>BaseURL\<close> is a \<open>*string\<close>.\<close>

record Channel =
  Key :: string
  BaseURL :: "string option"

text \<open>
  The options \<open>newAwsClient\<close> builds the \<open>bedrockruntime.Client\<close> from: the region and
  the static credentials provider's access key and secret key (its session token is
  the empty string).
\<close>

record Client =
  Region :: string
  AccessKey :: string
  SecretKey :: string

text \<open>
  \<open>strings.Split(s, sep)\<close> for a one-byte separator: the substrings of \<open>s\<close> between
  the separators, one more than there are separators.
\<close>

fun Split :: "string \<Rightarrow> char \<Rightarrow> string list" where
  "Split [] sep = [[]]"
| "Split (c # cs) sep =
     (if c = sep then [] # Split cs sep
      else (case Split cs sep of [] \<Rightarrow> [[c]] | w # ws \<Rightarrow> (c # w) # ws))"

definition newline :: char where
  "newline = CHR 0x0A"

definition newAwsClient :: "Channel \<Rightarrow> (err + Client) outcome" where
  "newAwsClient channel =
     (let ks = Split (Key channel) newline in
      if length ks \<noteq> 2 then Returned (Inl (ErrNew ''invalid key''))
      else (case BaseURL channel of
              None \<Rightarrow> Panicked
            | Some region \<Rightarrow>
                Returned (Inr \<lparr>Region = region, AccessKey = ks ! 0, SecretKey = ks ! 1\<rparr>)))"

text \<open>
  \<open>wrapErr(err)\<close>. The message is \<open>fmt.Sprintf("%+v", err)\<close>, which prints the stack
  recorded in the error; the formatter is the parameter \<open>fmt_plus_v\<close>.
\<close>

definition wrapErr :: "(err \<Rightarrow> string) \<Rightarrow> err \<Rightarrow> ErrorWithStatusCode" where
  "wrapErr fmt_plus_v e = \<lparr>StatusCode = 500, Message = fmt_plus_v e\<rparr>"

definition awsModelID :: "string \<Rightarrow> err + string" where
  "awsModelID requestModel =
     (if requestModel = ''claude-instant-1.2'' then Inr ''anthropic.claude-instant-v1''
      else if requestModel = ''claude-2.0'' then Inr ''anthropic.claude-v2''
      else if requestModel = ''claude-2.1'' then Inr ''anthropic.claude-v2:1''
      else if requestModel = ''claude-3-sonnet-20240229''
        then Inr ''anthropic.claude-3-sonnet-20240229-v1:0''
      else if requestModel = ''claude-3-opus-20240229''
        then Inr ''anthropic.claude-3-opus-20240229-v1:0''
      else if requestModel = ''claude-3-haiku-20240307''
        then Inr ''anthropic.claude-3-haiku-20240307-v1:0''
      else Inl (ErrNew (''unknown model: '' @ requestModel)))"

section \<open>relay/adaptor/aws/main.go: the handlers\<close>

text \<open>
  The values the handlers read from the request context: the channel and the
  converted request (\<open>c.Get\<close>, \<open>None\<close> when the key is not set) and the two model names
  (\<open>c.GetString\<close>, the empty string when not set). \<open>'q\<close> is \<open>anthropic.Request\<close>.
\<close>

record 'q ctx =
  channel :: "Channel option"
  request_model :: string
  origin_model :: string
  converted_request :: "'q option"

record InvokeModelInput =
  ModelId :: string
  Accept :: string
  ContentType :: string
  Body :: bytes

text \<open>
  The structs of the \<open>anthropic\<close> and \<open>relay/model\<close> packages, with the fields the
  handlers read or write; what else a struct holds is its \<open>rest\<close>.
\<close>

record anthropic_Usage =
  InputTokens :: go_int
  OutputTokens :: go_int

record anthropic_Response =
  claude_Id :: string
  claude_Usage :: anthropic_Usage

record 't TextResponse =
  text_Model :: string
  text_Usage :: Usage
  text_rest :: 't

record 'c ChatCompletionsStreamResponse =
  chunk_Id :: string
  chunk_Model :: string
  chunk_Created :: int64
  chunk_rest :: 'c

text \<open>
  \<open>types.ResponseStream\<close>, the union the event channel carries: a chunk with its bytes,
  an unknown member with its tag, and anything else (nil included).
\<close>

datatype event =
  ResponseStreamMemberChunk bytes
| UnknownUnionMember string
| OtherMember

text \<open>What a handler does that its caller or the network can see, in order.\<close>

datatype ('t, 'c) effect =
  Call_InvokeModel Client InvokeModelInput
| Call_InvokeModelWithResponseStream Client InvokeModelInput
| Write_JSON nat "'t TextResponse"
| Set_Header string string
| Render string
| SysError string
| Println "string list"
| Stream_Close

text \<open>
  The functions the handlers call that are defined elsewhere: the formatter of
  \<open>wrapErr\<close>, the struct literal \<open>&Request{AnthropicVersion: v}\<close> (\<open>'r\<close> is the adaptor's
  \<open>Request\<close>), \<open>copier.Copy\<close>, the JSON codecs at each type, the two Bedrock calls
  (the streaming one returns the events its channel delivers before it is closed) and
  the two converters of the \<open>anthropic\<close> package (\<open>'s\<close> is \<open>anthropic.StreamResponse\<close>).
\<close>

record ('q, 'r, 's, 't, 'c) deps =
  fmt_plus_v :: "err \<Rightarrow> string"
  new_Request :: "string \<Rightarrow> 'r"
  copier_Copy :: "'r \<Rightarrow> 'q \<Rightarrow> err + 'r"
  json_Marshal_Request :: "'r \<Rightarrow> err + bytes"
  InvokeModel :: "Client \<Rightarrow> InvokeModelInput \<Rightarrow> err + bytes"
  json_Unmarshal_Response :: "bytes \<Rightarrow> err + anthropic_Response"
  ResponseClaude2OpenAI :: "anthropic_Response \<Rightarrow> 't TextResponse"
  InvokeModelWithResponseStream :: "Client \<Rightarrow> InvokeModelInput \<Rightarrow> err + event list"
  json_Decode_StreamResponse :: "bytes \<Rightarrow> err + 's"
  StreamResponseClaude2OpenAI ::
    "'s \<Rightarrow> 'c ChatCompletionsStreamResponse option \<times> anthropic_Response option"
  json_Marshal_StreamResponse :: "'c ChatCompletionsStreamResponse \<Rightarrow> err + bytes"

text \<open>A handler's run: what it returned (error envelope, usage) and what it did.\<close>

record ('t, 'c) run =
  result :: "(ErrorWithStatusCode option \<times> Usage option) outcome"
  effects :: "('t, 'c) effect list"

text \<open>
  The early returns \<open>return wrapErr(e), nil\<close>, with the effects of the run so far.
\<close>

definition fail ::
  "('q, 'r, 's, 't, 'c) deps \<Rightarrow> err \<Rightarrow> ('t, 'c) effect list \<Rightarrow> ('t, 'c) run" where
  "fail d e effs = \<lparr>result = Returned (Some (wrapErr (fmt_plus_v d) e), None), effects = effs\<rparr>"

text \<open>
  \<open>Handler(c, resp, promptTokens, modelName)\<close>; the function reads neither \<open>resp\<close> nor
  \<open>promptTokens\<close>.
\<close>

definition Handler ::
  "('q, 'r, 's, 't, 'c) deps \<Rightarrow> 'q ctx \<Rightarrow> string \<Rightarrow> ('t, 'c) run" where
  "Handler d c modelName =
     (case channel c of
        None \<Rightarrow> fail d (ErrNew ''channel not found'') []
      | Some ch \<Rightarrow>
     (case newAwsClient ch of
        Panicked \<Rightarrow> \<lparr>result = Panicked, effects = []\<rparr>
      | Returned (Inl e) \<Rightarrow> fail d (ErrWrap e ''newAwsClient'') []
      | Returned (Inr awsCli) \<Rightarrow>
     (case awsModelID (request_model c) of
        Inl e \<Rightarrow> fail d (ErrWrap e ''awsModelID'') []
      | Inr awsModelId \<Rightarrow>
     (case converted_request c of
        None \<Rightarrow> fail d (ErrNew ''request not found'') []
      | Some claudeReq \<Rightarrow>
     (case copier_Copy d (new_Request d ''bedrock-2023-05-31'') claudeReq of
        Inl e \<Rightarrow> fail d (ErrWrap e ''copy request'') []
      | Inr awsClaudeReq \<Rightarrow>
     (case json_Marshal_Request d awsClaudeReq of
        Inl e \<Rightarrow> fail d (ErrWrap e ''marshal request'') []
      | Inr body \<Rightarrow>
     (let awsReq = \<lparr>ModelId = awsModelId, Accept = ''application/json'',
                    ContentType = ''application/json'', Body = body\<rparr>
      in
     (case InvokeModel d awsCli awsReq of
        Inl e \<Rightarrow> fail d (ErrWrap e ''InvokeModel'') [Call_InvokeModel awsCli awsReq]
      | Inr respBody \<Rightarrow>
     (case json_Unmarshal_Response d respBody of
        Inl e \<Rightarrow> fail d (ErrWrap e ''unmarshal response'') [Call_InvokeModel awsCli awsReq]
      | Inr claudeResponse \<Rightarrow>
     (let usage = \<lparr>PromptTokens = InputTokens (claude_Usage claudeResponse),
                   CompletionTokens = OutputTokens (claude_Usage claudeResponse),
                   TotalTokens = InputTokens (claude_Usage claudeResponse)
                                 + OutputTokens (claude_Usage claudeResponse)\<rparr>;
          openaiResp = (ResponseClaude2OpenAI d claudeResponse)
                          \<lparr>text_Model := modelName, text_Usage := usage\<rparr>
      in \<lparr>result = Returned (None, Some usage),
          effects = [Call_InvokeModel awsCli awsReq, Write_JSON 200 openaiResp]\<rparr>))))))))))"

text \<open>
  The state of the streaming loop: the events still in the channel, the closure's
  two captured variables \<open>usage\<close> and \<open>id\<close> (here \<open>id_var\<close>), and the effects so far.
\<close>

record ('t, 'c) pump =
  events :: "event list"
  usage :: Usage
  id_var :: string
  trace :: "('t, 'c) effect list"

text \<open>
  One call of the closure passed to \<open>c.Stream\<close>: the value it returns (keep the
  stream open or not) and the state afterwards. \<open>originModel\<close> is
  \<open>c.GetString(common.CtxKeyOriginModel)\<close>.
\<close>

definition step ::
  "('q, 'r, 's, 't, 'c) deps \<Rightarrow> string \<Rightarrow> int64 \<Rightarrow> ('t, 'c) pump \<Rightarrow> bool \<times> ('t, 'c) pump" where
  "step d originModel createdTime s =
     (case events s of
        [] \<Rightarrow> (False, s\<lparr>trace := trace s @ [Render ''data: [DONE]'']\<rparr>)
      | event # rest \<Rightarrow>
     (let s = s\<lparr>events := rest\<rparr> in
     (case event of
        ResponseStreamMemberChunk bs \<Rightarrow>
          (case json_Decode_StreamResponse d bs of
             Inl e \<Rightarrow>
               (False, s\<lparr>trace := trace s
                           @ [SysError (''error unmarshalling stream response: '' @ Error e)]\<rparr>)
           | Inr claudeResp \<Rightarrow>
          (case StreamResponseClaude2OpenAI d claudeResp of (response, meta) \<Rightarrow>
          (case meta of
             Some m \<Rightarrow>
               (True, s\<lparr>usage := (usage s)
                          \<lparr>PromptTokens := PromptTokens (usage s) + InputTokens (claude_Usage m),
                           CompletionTokens :=
                             CompletionTokens (usage s) + OutputTokens (claude_Usage m)\<rparr>,
                        id_var := ''chatcmpl-'' @ claude_Id m\<rparr>)
           | None \<Rightarrow>
          (case response of
             None \<Rightarrow> (True, s)
           | Some r \<Rightarrow>
          (let r = r\<lparr>chunk_Id := id_var s, chunk_Model := originModel,
                     chunk_Created := createdTime\<rparr>
           in
          (case json_Marshal_StreamResponse d r of
             Inl e \<Rightarrow>
               (True, s\<lparr>trace := trace s
                          @ [SysError (''error marshalling stream response: '' @ Error e)]\<rparr>)
           | Inr jsonStr \<Rightarrow>
               (True, s\<lparr>trace := trace s @ [Render (''data: '' @ jsonStr)]\<rparr>)))))))
      | UnknownUnionMember tag \<Rightarrow>
          (False, s\<lparr>trace := trace s @ [Println [''unknown tag:'', tag]]\<rparr>)
      | OtherMember \<Rightarrow>
          (False, s\<lparr>trace := trace s @ [Println [''union is nil or unknown type'']]\<rparr>))))"

text \<open>
  gin's \<open>c.Stream(step)\<close>: before each call of \<open>step\<close> it looks whether the client has
  gone and returns if so; after a call that returned false it returns. \<open>rounds\<close> is the
  number of times it finds the client still there.
\<close>

fun Stream :: "('a \<Rightarrow> bool \<times> 'a) \<Rightarrow> nat \<Rightarrow> 'a \<Rightarrow> 'a" where
  "Stream stp 0 s = s"
| "Stream stp (Suc rounds) s =
     (case stp s of (keepOpen, s') \<Rightarrow> if keepOpen then Stream stp rounds s' else s')"

text \<open>
  \<open>StreamHandler(c, resp)\<close>; \<open>resp\<close> is not read. \<open>now\<close> is what
  \<open>helper.GetTimestamp()\<close> returns when the handler starts. The deferred
  \<open>stream.Close()\<close> runs when the handler returns after the stream was opened.
\<close>

definition StreamHandler ::
  "('q, 'r, 's, 't, 'c) deps \<Rightarrow> 'q ctx \<Rightarrow> int64 \<Rightarrow> nat \<Rightarrow> ('t, 'c) run" where
  "StreamHandler d c now rounds =
     (let createdTime = now in
     (case channel c of
        None \<Rightarrow> fail d (ErrNew ''channel not found'') []
      | Some ch \<Rightarrow>
     (case newAwsClient ch of
        Panicked \<Rightarrow> \<lparr>result = Panicked, effects = []\<rparr>
      | Returned (Inl e) \<Rightarrow> fail d (ErrWrap e ''newAwsClient'') []
      | Returned (Inr awsCli) \<Rightarrow>
     (case awsModelID (request_model c) of
        Inl e \<Rightarrow> fail d (ErrWrap e ''awsModelID'') []
      | Inr awsModelId \<Rightarrow>
     (case converted_request c of
        None \<Rightarrow> fail d (ErrNew ''request not found'') []
      | Some claudeReq \<Rightarrow>
     (case copier_Copy d (new_Request d ''bedrock-2023-05-31'') claudeReq of
        Inl e \<Rightarrow> fail d (ErrWrap e ''copy request'') []
      | Inr awsClaudeReq \<Rightarrow>
     (case json_Marshal_Request d awsClaudeReq of
        Inl e \<Rightarrow> fail d (ErrWrap e ''marshal request'') []
      | Inr body \<Rightarrow>
     (let awsReq = \<lparr>ModelId = awsModelId, Accept = ''application/json'',
                    ContentType = ''application/json'', Body = body\<rparr>
      in
     (case InvokeModelWithResponseStream d awsCli awsReq of
        Inl e \<Rightarrow>
          fail d (ErrWrap e ''InvokeModelWithResponseStream'')
            [Call_InvokeModelWithResponseStream awsCli awsReq]
      | Inr evs \<Rightarrow>
     (let s0 = \<lparr>events = evs,
                usage = \<lparr>PromptTokens = 0, CompletionTokens = 0, TotalTokens = 0\<rparr>,
                id_var = [],
                trace = [Call_InvokeModelWithResponseStream awsCli awsReq,
                         Set_Header ''Content-Type'' ''text/event-stream'']\<rparr>;
          s = Stream (step d (origin_model c) createdTime) rounds s0
      in \<lparr>result = Returned (None, Some (usage s)),
          effects = trace s @ [Stream_Close]\<rparr>))))))))))"

section \<open>Vocabulary of the statements\<close>

text \<open>The cases of the \<open>switch\<close> in \<open>awsModelID\<close>, as a table.\<close>

definition model_table :: "(string \<times> string) list" where
  "model_table =
     [(''claude-instant-1.2'', ''anthropic.claude-instant-v1''),
      (''claude-2.0'', ''anthropic.claude-v2''),
      (''claude-2.1'', ''anthropic.claude-v2:1''),
      (''claude-3-sonnet-20240229'', ''anthropic.claude-3-sonnet-20240229-v1:0''),
      (''claude-3-opus-20240229'', ''anthropic.claude-3-opus-20240229-v1:0''),
      (''claude-3-haiku-20240307'', ''anthropic.claude-3-haiku-20240307-v1:0'')]"

text \<open>A handler run succeeded when it returned no error envelope.\<close>

definition succeeded :: "('t, 'c) run \<Rightarrow> bool" where
  "succeeded r = (case result r of Returned (None, _) \<Rightarrow> True | _ \<Rightarrow> False)"

text \<open>The frames written to the client, in order: the data of each \<open>c.Render\<close>.\<close>

fun rendered :: "('t, 'c) effect list \<Rightarrow> string list" where
  "rendered [] = []"
| "rendered (Render f # es) = f # rendered es"
| "rendered (_ # es) = rendered es"

text \<open>
  What the loop body makes of one event: it ends the stream without a terminator
  (\<open>Fatal\<close>: a chunk that does not decode, an unknown member, anything else), it only
  updates \<open>usage\<close> and \<open>id\<close> (\<open>Metadata\<close>), it does nothing (\<open>Empty\<close>), or it has a
  chunk to stamp and write (\<open>Content\<close>).
\<close>

datatype 'c kind =
  Fatal
| Metadata anthropic_Response
| Empty
| Content "'c ChatCompletionsStreamResponse"

definition kind_of :: "('q, 'r, 's, 't, 'c) deps \<Rightarrow> event \<Rightarrow> 'c kind" where
  "kind_of d e =
     (case e of
        ResponseStreamMemberChunk bs \<Rightarrow>
          (case json_Decode_StreamResponse d bs of
             Inl _ \<Rightarrow> Fatal
           | Inr claudeResp \<Rightarrow>
               (case StreamResponseClaude2OpenAI d claudeResp of
                  (_, Some m) \<Rightarrow> Metadata m
                | (None, None) \<Rightarrow> Empty
                | (Some r, None) \<Rightarrow> Content r))
      | UnknownUnionMember _ \<Rightarrow> Fatal
      | OtherMember \<Rightarrow> Fatal)"

definition fatal :: "('q, 'r, 's, 't, 'c) deps \<Rightarrow> event \<Rightarrow> bool" where
  "fatal d e = (case kind_of d e of Fatal \<Rightarrow> True | _ \<Rightarrow> False)"

text \<open>The metadata of the metadata-bearing events of a list, in order.\<close>

fun metas :: "('q, 'r, 's, 't, 'c) deps \<Rightarrow> event list \<Rightarrow> anthropic_Response list" where
  "metas d [] = []"
| "metas d (e # es) = (case kind_of d e of Metadata m \<Rightarrow> m # metas d es | _ \<Rightarrow> metas d es)"

text \<open>
  The events the loop takes from the channel: at most \<open>rounds\<close> of them, and none
  after the first fatal one.
\<close>

fun observed :: "('q, 'r, 's, 't, 'c) deps \<Rightarrow> nat \<Rightarrow> event list \<Rightarrow> event list" where
  "observed d 0 es = []"
| "observed d (Suc n) [] = []"
| "observed d (Suc n) (e # es) = e # (if fatal d e then [] else observed d n es)"

text \<open>
  The loop sees the channel closed: no event is fatal and the client is still there
  after the last one.
\<close>

definition closes :: "('q, 'r, 's, 't, 'c) deps \<Rightarrow> nat \<Rightarrow> event list \<Rightarrow> bool" where
  "closes d rounds es = (list_all (\<lambda>e. \<not> fatal d e) es \<and> length es < rounds)"

text \<open>
  The value of \<open>id\<close> after the events \<open>pre\<close>, when it was \<open>i\<close> before them: the
  identifier made from the last metadata event of \<open>pre\<close>, and \<open>i\<close> when there is none.
\<close>

definition id_after :: "('q, 'r, 's, 't, 'c) deps \<Rightarrow> string \<Rightarrow> event list \<Rightarrow> string" where
  "id_after d i pre =
     (if metas d pre = [] then i else ''chatcmpl-'' @ claude_Id (last (metas d pre)))"

text \<open>
  The frame a content event gives when \<open>id\<close> is \<open>i\<close>: the chunk with its identifier,
  model and creation time overwritten, marshalled, behind \<open>data: \<close>. Other events and
  chunks that do not marshal give no frame.
\<close>

definition frame ::
  "('q, 'r, 's, 't, 'c) deps \<Rightarrow> string \<Rightarrow> int64 \<Rightarrow> string \<Rightarrow> event \<Rightarrow> string option" where
  "frame d originModel createdTime i e =
     (case kind_of d e of
        Content r \<Rightarrow>
          (case json_Marshal_StreamResponse d
                  (r\<lparr>chunk_Id := i, chunk_Model := originModel, chunk_Created := createdTime\<rparr>) of
             Inr jsonStr \<Rightarrow> Some (''data: '' @ jsonStr)
           | Inl _ \<Rightarrow> None)
      | _ \<Rightarrow> None)"

text \<open>
  The frames of a list of events, each stamped with the identifier in force after
  the events before it.
\<close>

definition frames ::
  "('q, 'r, 's, 't, 'c) deps \<Rightarrow> string \<Rightarrow> int64 \<Rightarrow> string \<Rightarrow> event list \<Rightarrow> string list" where
  "frames d originModel createdTime i es =
     List.map_filter (\<lambda>(pre, e). frame d originModel createdTime (id_after d i pre) e)
       (zip (prefixes es) es)"

text \<open>The sums of the token counts of a list of metadata.\<close>

definition input_sum :: "anthropic_Response list \<Rightarrow> go_int" where
  "input_sum ms = sum_list (map (\<lambda>m. InputTokens (claude_Usage m)) ms)"

definition output_sum :: "anthropic_Response list \<Rightarrow> go_int" where
  "output_sum ms = sum_list (map (\<lambda>m. OutputTokens (claude_Usage m)) ms)"

subsection \<open>A concrete channel, context and set of collaborators\<close>

text \<open>
  A small instance of the parameters, on which the statements are evaluated. Stream
  chunks are decoded to their own bytes: \<open>garbage\<close> does not decode, a chunk
  \<open>M<id>\<close> is a metadata event with identifier \<open><id>\<close> and 10 input and 5 output tokens,
  the empty chunk is an empty event, and any other chunk carries content; content
  \<open>unmarshalable\<close> cannot be marshalled. The formatter of \<open>wrapErr\<close> prints the
  error's message only, the request copy and the codecs of the request succeed, and
  the unary reply decodes to 10 input and 5 output tokens.
\<close>

definition sample_channel :: Channel where
  "sample_channel = \<lparr>Key = ''AKIA'' @ [newline] @ ''secret'', BaseURL = Some ''us-east-1''\<rparr>"

definition sample_ctx :: "unit ctx" where
  "sample_ctx = \<lparr>channel = Some sample_channel, request_model = ''claude-2.1'',
                  origin_model = ''my-claude'', converted_request = Some ()\<rparr>"

definition sample_convert ::
  "string \<Rightarrow> string ChatCompletionsStreamResponse option \<times> anthropic_Response option" where
  "sample_convert s =
     (case s of
        [] \<Rightarrow> (None, None)
      | c # cs \<Rightarrow>
          if c = CHR ''M''
          then (None, Some \<lparr>claude_Id = cs,
                             claude_Usage = \<lparr>InputTokens = 10, OutputTokens = 5\<rparr>\<rparr>)
          else (Some \<lparr>chunk_Id = ''native-id'', chunk_Model = ''native-model'',
                      chunk_Created = 0, chunk_rest = s\<rparr>, None))"

definition sample_marshal :: "string ChatCompletionsStreamResponse \<Rightarrow> err + bytes" where
  "sample_marshal r =
     (if chunk_rest r = ''unmarshalable'' then Inl (ErrNew ''unsupported value'')
      else Inr (''{id='' @ chunk_Id r @ '',model='' @ chunk_Model r
                @ '',text='' @ chunk_rest r @ ''}''))"

definition sample_deps :: "event list \<Rightarrow> (unit, string, string, unit, string) deps" where
  "sample_deps evs =
     \<lparr>fmt_plus_v = Error,
      new_Request = (\<lambda>v. v),
      copier_Copy = (\<lambda>r q. Inr r),
      json_Marshal_Request = (\<lambda>r. Inr r),
      InvokeModel = (\<lambda>cli req. Inr ''reply''),
      json_Unmarshal_Response =
        (\<lambda>bs. Inr \<lparr>claude_Id = ''msg_1'',
                     claude_Usage = \<lparr>InputTokens = 10, OutputTokens = 5\<rparr>\<rparr>),
      ResponseClaude2OpenAI =
        (\<lambda>r. \<lparr>text_Model = ''native-model'',
                text_Usage = \<lparr>PromptTokens = 0, CompletionTokens = 0, TotalTokens = 99\<rparr>,
                text_rest = ()\<rparr>),
      InvokeModelWithResponseStream = (\<lambda>cli req. Inr evs),
      json_Decode_StreamResponse =
        (\<lambda>bs. if bs = ''garbage'' then Inl (ErrNew ''invalid character'') else Inr bs),
      StreamResponseClaude2OpenAI = sample_convert,
      json_Marshal_StreamResponse = sample_marshal\<rparr>"

section \<open>Facts about the model\<close>

subsection \<open>Splitting keys\<close>

lemma length_Split: "length (Split s sep) = Suc (count_list s sep)"
  by (induction s) (auto split: list.splits)

subsection \<open>The loop body, case by case\<close>

lemma rendered_append: "rendered (xs @ ys) = rendered xs @ rendered ys"
  by (induction xs rule: rendered.induct) simp_all

lemma step_Nil:
  "events s = [] \<Longrightarrow>
   step d originModel t s = (False, s\<lparr>trace := trace s @ [Render ''data: [DONE]'']\<rparr>)"
  by (simp add: step_def)

lemma step_Fatal:
  assumes "events s = e # rest" and "kind_of d e = Fatal"
  shows "\<exists>l. step d originModel t s = (False, s\<lparr>events := rest, trace := trace s @ [l]\<rparr>)
             \<and> rendered [l] = []"
  using assms
  by (auto simp: step_def kind_of_def split: event.splits sum.splits prod.splits option.splits)

lemma step_Metadata:
  assumes "events s = e # rest" and "kind_of d e = Metadata m"
  shows "step d originModel t s =
           (True, s\<lparr>events := rest,
                    usage := (usage s)
                      \<lparr>PromptTokens := PromptTokens (usage s) + InputTokens (claude_Usage m),
                       CompletionTokens :=
                         CompletionTokens (usage s) + OutputTokens (claude_Usage m)\<rparr>,
                    id_var := ''chatcmpl-'' @ claude_Id m\<rparr>)"
  using assms
  by (auto simp: step_def kind_of_def split: event.splits sum.splits prod.splits option.splits)

lemma step_Empty:
  assumes "events s = e # rest" and "kind_of d e = Empty"
  shows "step d originModel t s = (True, s\<lparr>events := rest\<rparr>)"
  using assms
  by (auto simp: step_def kind_of_def split: event.splits sum.splits prod.splits option.splits)

lemma step_Content:
  assumes "events s = e # rest" and "kind_of d e = Content r"
  shows "\<exists>l. step d originModel t s = (True, s\<lparr>events := rest, trace := trace s @ l\<rparr>)
             \<and> rendered l = (case frame d originModel t (id_var s) e of None \<Rightarrow> [] | Some f \<Rightarrow> [f])"
  using assms
  by (auto simp: step_def kind_of_def frame_def Let_def
           split: event.splits sum.splits prod.splits option.splits)

lemma fatal_iff:
  "fatal d e \<longleftrightarrow>
     (\<exists>tag. e = UnknownUnionMember tag) \<or> e = OtherMember
     \<or> (\<exists>bs err. e = ResponseStreamMemberChunk bs \<and> json_Decode_StreamResponse d bs = Inl err)"
  by (auto simp: fatal_def kind_of_def split: event.splits sum.splits prod.splits option.splits)

subsection \<open>Frames, identifiers and observed events\<close>

lemma map_filter_map: "List.map_filter f (map g xs) = List.map_filter (f \<circ> g) xs"
  by (induction xs) (simp_all split: option.splits)

lemma set_map_filter: "set (List.map_filter f xs) = {y. \<exists>x \<in> set xs. f x = Some y}"
  by (induction xs) (auto split: option.splits)

lemma id_after_Nil: "id_after d i [] = i"
  by (simp add: id_after_def)

lemma id_after_step:
  "id_after d i (e # pre) =
     id_after d (case kind_of d e of Metadata m \<Rightarrow> ''chatcmpl-'' @ claude_Id m | _ \<Rightarrow> i) pre"
  by (simp add: id_after_def split: kind.splits)

lemma frames_Nil: "frames d originModel t i [] = []"
  by (simp add: frames_def)

lemma frames_Cons:
  "frames d originModel t i (e # es) =
     (case frame d originModel t i e of None \<Rightarrow> [] | Some f \<Rightarrow> [f])
     @ frames d originModel t (id_after d i [e]) es"
proof -
  have z: "zip (prefixes (e # es)) (e # es)
          = ([], e) # map (\<lambda>(pre, x). (e # pre, x)) (zip (prefixes es) es)"
    by (simp add: zip_map1)
  have c: "(\<lambda>(pre, x). frame d originModel t (id_after d i pre) x) \<circ> (\<lambda>(pre, x). (e # pre, x))
         = (\<lambda>(pre, x). frame d originModel t (id_after d (id_after d i [e]) pre) x)"
    by (rule ext) (simp add: id_after_def case_prod_unfold split: kind.splits)
  show ?thesis
    unfolding frames_def z
    by (simp add: map_filter_map c id_after_Nil split: option.splits)
qed

lemma frame_fatal: "fatal d e \<Longrightarrow> frame d originModel t i e = None"
  by (simp add: fatal_def frame_def split: kind.splits)

lemma frames_snoc_fatal:
  "fatal d bad \<Longrightarrow> frames d originModel t i (pre @ [bad]) = frames d originModel t i pre"
  by (induction pre arbitrary: i) (simp_all add: frames_Cons frames_Nil frame_fatal)

lemma frame_Some:
  "frame d originModel t i e = Some f \<Longrightarrow>
   \<exists>r jsonStr. json_Marshal_StreamResponse d r = Inr jsonStr \<and> f = ''data: '' @ jsonStr"
  by (auto simp: frame_def split: kind.splits sum.splits)

lemma done_not_in_frames:
  assumes "\<forall>r. json_Marshal_StreamResponse d r \<noteq> Inr ''[DONE]''"
  shows "''data: [DONE]'' \<notin> set (frames d originModel t i es)"
proof
  assume "''data: [DONE]'' \<in> set (frames d originModel t i es)"
  then obtain pre e where "frame d originModel t (id_after d i pre) e = Some ''data: [DONE]''"
    by (auto simp: frames_def set_map_filter)
  from frame_Some [OF this] assms show False
    by auto
qed

lemma metas_append: "metas d (xs @ ys) = metas d xs @ metas d ys"
  by (induction xs) (simp_all split: kind.splits)

lemma observed_all:
  "list_all (\<lambda>e. \<not> fatal d e) es \<Longrightarrow> length es < n \<Longrightarrow> observed d n es = es"
  by (induction d n es rule: observed.induct) simp_all

lemma observed_upto_fatal:
  "list_all (\<lambda>e. \<not> fatal d e) pre \<Longrightarrow> fatal d bad \<Longrightarrow> length pre < n \<Longrightarrow>
   observed d n (pre @ bad # post) = pre @ [bad]"
  by (induction d n pre rule: observed.induct) (simp_all, (cases n; simp)?)

lemma closes_Nil: "closes d (Suc n) [] = True" and closes_0: "closes d 0 es = False"
  by (simp_all add: closes_def)

lemma closes_Cons: "closes d (Suc n) (e # es) = (\<not> fatal d e \<and> closes d n es)"
  by (auto simp: closes_def)

lemma closes_fatal: "fatal d bad \<Longrightarrow> closes d rounds (pre @ bad # post) = False"
  by (simp add: closes_def)

subsection \<open>The loop and the streaming handler as a whole\<close>

text \<open>
  Whatever the state the loop starts in: the token counts grow by the sums over the
  metadata of the observed events, \<open>id\<close> is the one in force after them, and the frames
  written are those of the observed events, followed by the terminator when the loop
  saw the channel closed.
\<close>

lemma Stream_step:
  "usage (Stream (step d originModel t) n s) =
     (usage s)\<lparr>PromptTokens :=
                 PromptTokens (usage s) + input_sum (metas d (observed d n (events s))),
               CompletionTokens :=
                 CompletionTokens (usage s) + output_sum (metas d (observed d n (events s)))\<rparr>
   \<and> id_var (Stream (step d originModel t) n s) = id_after d (id_var s) (observed d n (events s))
   \<and> rendered (trace (Stream (step d originModel t) n s)) =
       rendered (trace s) @ frames d originModel t (id_var s) (observed d n (events s))
       @ (if closes d n (events s) then [''data: [DONE]''] else [])"
proof (induction n arbitrary: s)
  case 0
  show ?case
    by (simp add: input_sum_def output_sum_def id_after_Nil frames_Nil closes_0)
next
  case (Suc n)
  show ?case
  proof (cases "events s")
    case Nil
    then show ?thesis
      by (simp add: step_Nil input_sum_def output_sum_def id_after_Nil frames_Nil closes_Nil
            rendered_append)
  next
    case (Cons e rest)
    show ?thesis
    proof (cases "kind_of d e")
      case Fatal
      from step_Fatal [OF Cons Fatal, of originModel t] obtain l where
        l: "step d originModel t s = (False, s\<lparr>events := rest, trace := trace s @ [l]\<rparr>)"
           "rendered [l] = []"
        by blast
      from Fatal have f: "fatal d e" by (simp add: fatal_def)
      show ?thesis
        using l f Cons Fatal
        by (simp add: input_sum_def output_sum_def id_after_step id_after_Nil frames_Cons
              frames_Nil frame_def closes_Cons rendered_append)
    next
      case (Metadata m)
      from Metadata have f: "\<not> fatal d e" by (simp add: fatal_def)
      show ?thesis
        using step_Metadata [OF Cons Metadata, of originModel t] f Cons Metadata
          Suc.IH [of "s\<lparr>events := rest,
                    usage := (usage s)
                      \<lparr>PromptTokens := PromptTokens (usage s) + InputTokens (claude_Usage m),
                       CompletionTokens :=
                         CompletionTokens (usage s) + OutputTokens (claude_Usage m)\<rparr>,
                    id_var := ''chatcmpl-'' @ claude_Id m\<rparr>"]
        by (simp add: input_sum_def output_sum_def id_after_step id_after_Nil frames_Cons
              frame_def closes_Cons add.assoc)
    next
      case Empty
      from Empty have f: "\<not> fatal d e" by (simp add: fatal_def)
      show ?thesis
        using step_Empty [OF Cons Empty, of originModel t] f Cons Empty
          Suc.IH [of "s\<lparr>events := rest\<rparr>"]
        by (simp add: input_sum_def output_sum_def id_after_step id_after_Nil frames_Cons
              frame_def closes_Cons)
    next
      case (Content r)
      from step_Content [OF Cons Content, of originModel t] obtain l where
        l: "step d originModel t s = (True, s\<lparr>events := rest, trace := trace s @ l\<rparr>)"
           "rendered l = (case frame d originModel t (id_var s) e of None \<Rightarrow> [] | Some f \<Rightarrow> [f])"
        by blast
      from Content have f: "\<not> fatal d e" by (simp add: fatal_def)
      show ?thesis
        using l f Cons Content Suc.IH [of "s\<lparr>events := rest, trace := trace s @ l\<rparr>"]
        by (simp add: input_sum_def output_sum_def id_after_step id_after_Nil frames_Cons
              closes_Cons rendered_append)
    qed
  qed
qed

text \<open>Once the stream is open, the handler returns the loop's usage and frames.\<close>

lemma StreamHandler_opened:
  assumes "channel c = Some ch"
    and "newAwsClient ch = Returned (Inr cli)"
    and "awsModelID (request_model c) = Inr modelId"
    and "converted_request c = Some claudeReq"
    and "copier_Copy d (new_Request d ''bedrock-2023-05-31'') claudeReq = Inr awsClaudeReq"
    and "json_Marshal_Request d awsClaudeReq = Inr body"
    and "InvokeModelWithResponseStream d cli
           \<lparr>ModelId = modelId, Accept = ''application/json'',
            ContentType = ''application/json'', Body = body\<rparr> = Inr evs"
  shows "result (StreamHandler d c now rounds) =
           Returned (None, Some \<lparr>PromptTokens = input_sum (metas d (observed d rounds evs)),
                                 CompletionTokens = output_sum (metas d (observed d rounds evs)),
                                 TotalTokens = 0\<rparr>)"
    and "rendered (effects (StreamHandler d c now rounds)) =
           frames d (origin_model c) now [] (observed d rounds evs)
           @ (if closes d rounds evs then [''data: [DONE]''] else [])"
proof -
  let ?req = "\<lparr>ModelId = modelId, Accept = ''application/json'',
               ContentType = ''application/json'', Body = body\<rparr>"
  let ?init = "\<lparr>events = evs,
              usage = \<lparr>PromptTokens = 0, CompletionTokens = 0, TotalTokens = 0\<rparr>,
              id_var = [],
              trace = [Call_InvokeModelWithResponseStream cli ?req,
                       Set_Header ''Content-Type'' ''text/event-stream'']\<rparr>
            :: ('d, 'e) pump"
  let ?s = "Stream (step d (origin_model c) now) rounds ?init"
  have run: "StreamHandler d c now rounds =
               \<lparr>result = Returned (None, Some (usage ?s)), effects = trace ?s @ [Stream_Close]\<rparr>"
    using assms by (simp add: StreamHandler_def Let_def)
  note pump = Stream_step [where d = d and originModel = "origin_model c" and t = now and n = rounds and s = ?init]

  show "result (StreamHandler d c now rounds) =
           Returned (None, Some \<lparr>PromptTokens = input_sum (metas d (observed d rounds evs)),
                                 CompletionTokens = output_sum (metas d (observed d rounds evs)),
                                 TotalTokens = 0\<rparr>)"
    using pump by (simp add: run)
  show "rendered (effects (StreamHandler d c now rounds)) =
           frames d (origin_model c) now [] (observed d rounds evs)
           @ (if closes d rounds evs then [''data: [DONE]''] else [])"
    using pump by (simp add: run rendered_append)
qed

subsection \<open>The concrete instance\<close>

lemma sample_setup:
  "channel sample_ctx = Some sample_channel"
  "newAwsClient sample_channel =
     Returned (Inr \<lparr>Region = ''us-east-1'', AccessKey = ''AKIA'', SecretKey = ''secret''\<rparr>)"
  "awsModelID (request_model sample_ctx) = Inr ''anthropic.claude-v2:1''"
  "converted_request sample_ctx = Some ()"
  "copier_Copy (sample_deps evs) (new_Request (sample_deps evs) ''bedrock-2023-05-31'') ()
     = Inr ''bedrock-2023-05-31''"
  "json_Marshal_Request (sample_deps evs) ''bedrock-2023-05-31'' = Inr ''bedrock-2023-05-31''"
  by (simp_all add: sample_ctx_def sample_channel_def sample_deps_def newAwsClient_def
        newline_def awsModelID_def)

lemma sample_calls:
  "InvokeModelWithResponseStream (sample_deps evs) cli req = Inr evs"
  "InvokeModel (sample_deps evs) cli req = Inr ''reply''"
  "json_Unmarshal_Response (sample_deps evs) bs =
     Inr \<lparr>claude_Id = ''msg_1'', claude_Usage = \<lparr>InputTokens = 10, OutputTokens = 5\<rparr>\<rparr>"
  by (simp_all add: sample_deps_def)

lemma sample_marshal_not_done:
  "\<forall>r. json_Marshal_StreamResponse (sample_deps evs) r \<noteq> Inr ''[DONE]''"
  by (simp add: sample_deps_def sample_marshal_def)

section \<open>Header construction and the transport call\<close>

text \<open>
  C9. After header construction the native request's \<open>Content-Type\<close> is the inbound
  one, and its \<open>Accept\<close> is the inbound one, except that a streaming request whose
  inbound \<open>Accept\<close> is the empty string gets \<open>text/event-stream\<close>.
\<close>

theorem SetupCommonRequestHeader_copies:
  "Header_Get (SetupCommonRequestHeader inbound hdr IsStream) ''Content-Type''
     = Header_Get inbound ''Content-Type''
   \<and> Header_Get (SetupCommonRequestHeader inbound hdr IsStream) ''Accept''
     = (if IsStream \<and> Header_Get inbound ''Accept'' = [] then ''text/event-stream''
        else Header_Get inbound ''Accept'')"
  by (simp add: SetupCommonRequestHeader_def Header_Set_def Header_Get_def Let_def)

text \<open>
  C3. \<open>DoRequest\<close> closes the outbound and the inbound request body only on the path
  that returns a response. When the client returns an error, and when it returns
  neither a response nor an error, \<open>DoRequest\<close> returns before its two \<open>Close\<close> calls:
  both bodies are left as they were. Here no \<open>Close\<close> has been called on either body
  before, and the counts stay 0 on the two error paths and become 1 on success.
\<close>

theorem DoRequest_error_paths_close_nothing:
  "DoRequest (None :: unit option, Some (ErrNew ''dial tcp: i/o timeout''))
       \<lparr>req_Body = Some 0, inbound_Body = 0\<rparr>
     = (Returned (None, Some (ErrNew ''dial tcp: i/o timeout'')),
        \<lparr>req_Body = Some 0, inbound_Body = 0\<rparr>)
   \<and> DoRequest (None :: unit option, None) \<lparr>req_Body = Some 0, inbound_Body = 0\<rparr>
     = (Returned (None, Some (ErrNew ''resp is nil'')), \<lparr>req_Body = Some 0, inbound_Body = 0\<rparr>)
   \<and> DoRequest (Some (), None) \<lparr>req_Body = Some 0, inbound_Body = 0\<rparr>
     = (Returned (Some (), None), \<lparr>req_Body = Some 1, inbound_Body = 1\<rparr>)"
  by (simp add: DoRequest_def)

section \<open>Model names and credentials\<close>

text \<open>
  C4. The model-id lookup returns the native identifier of the table for a name in the
  table, whose names are distinct, and the error \<open>unknown model: <name>\<close> for any other
  name, never a default. When the requested model is not in the table, neither handler
  succeeds and neither does anything its caller or the provider can see: no provider
  call is made.
\<close>

theorem awsModelID_table:
  "distinct (map fst model_table)
   \<and> awsModelID name =
       (case map_of model_table name of
          Some native \<Rightarrow> Inr native
        | None \<Rightarrow> Inl (ErrNew (''unknown model: '' @ name)))
   \<and> (map_of model_table (request_model c) = None \<longrightarrow>
        \<not> succeeded (Handler d c modelName) \<and> effects (Handler d c modelName) = []
        \<and> \<not> succeeded (StreamHandler d c now rounds)
        \<and> effects (StreamHandler d c now rounds) = [])"
proof -
  have t: "awsModelID x =
       (case map_of model_table x of
          Some native \<Rightarrow> Inr native
        | None \<Rightarrow> Inl (ErrNew (''unknown model: '' @ x)))" for x
    by (simp add: awsModelID_def model_table_def)
  have "distinct (map fst model_table)"
    by (simp add: model_table_def)
  moreover have "\<not> succeeded (Handler d c modelName) \<and> effects (Handler d c modelName) = []
        \<and> \<not> succeeded (StreamHandler d c now rounds)
        \<and> effects (StreamHandler d c now rounds) = []"
    if "map_of model_table (request_model c) = None"
  proof -
    from that t [of "request_model c"]
    have "awsModelID (request_model c) = Inl (ErrNew (''unknown model: '' @ request_model c))"
      by simp
    then show ?thesis
      by (simp add: Handler_def StreamHandler_def succeeded_def fail_def
            split: option.splits outcome.splits sum.splits)
  qed
  ultimately show ?thesis
    using t [of name] by blast
qed

theorem awsModelID_table_witness:
  "map_of model_table ''gpt-4'' = None
   \<and> awsModelID ''gpt-4'' = Inl (ErrNew ''unknown model: gpt-4'')
   \<and> awsModelID ''claude-2.1'' = Inr ''anthropic.claude-v2:1''
   \<and> \<not> succeeded (Handler (sample_deps []) (sample_ctx\<lparr>request_model := ''gpt-4''\<rparr>) ''gpt-4'')
   \<and> effects (Handler (sample_deps []) (sample_ctx\<lparr>request_model := ''gpt-4''\<rparr>) ''gpt-4'') = []
   \<and> \<not> succeeded (StreamHandler (sample_deps []) (sample_ctx\<lparr>request_model := ''gpt-4''\<rparr>)
                     1700000000 5)
   \<and> effects (StreamHandler (sample_deps []) (sample_ctx\<lparr>request_model := ''gpt-4''\<rparr>)
                1700000000 5) = []"
proof -
  have none: "map_of model_table ''gpt-4'' = None"
    by (simp add: model_table_def)
  have known: "map_of model_table ''claude-2.1'' = Some ''anthropic.claude-v2:1''"
    by (simp add: model_table_def)
  show ?thesis
    using awsModelID_table [of "''gpt-4''" "sample_ctx\<lparr>request_model := ''gpt-4''\<rparr>"
            "sample_deps []" "''gpt-4''" 1700000000 5]
          awsModelID_table [of "''claude-2.1''" sample_ctx "sample_deps []" "''gpt-4''" 1700000000 5]
          none known
    by simp
qed

text \<open>
  C6. When the channel's key does not split into exactly two parts at newlines,
  client construction fails with \<open>invalid key\<close>, and both handlers return that error,
  wrapped as \<open>newAwsClient\<close>'s and put in the envelope with status 500, without having
  done anything else: no provider call is made.
\<close>

theorem invalid_key_rejected:
  assumes "channel c = Some ch"
    and "length (Split (Key ch) newline) \<noteq> 2"
  shows "newAwsClient ch = Returned (Inl (ErrNew ''invalid key''))
         \<and> Handler d c modelName =
             \<lparr>result = Returned (Some (wrapErr (fmt_plus_v d)
                                          (ErrWrap (ErrNew ''invalid key'') ''newAwsClient'')),
                                  None),
              effects = []\<rparr>
         \<and> StreamHandler d c now rounds =
             \<lparr>result = Returned (Some (wrapErr (fmt_plus_v d)
                                          (ErrWrap (ErrNew ''invalid key'') ''newAwsClient'')),
                                  None),
              effects = []\<rparr>"
proof -
  have k: "newAwsClient ch = Returned (Inl (ErrNew ''invalid key''))"
    using assms(2) by (simp add: newAwsClient_def Let_def)
  show ?thesis
    using assms(1) k by (simp add: Handler_def StreamHandler_def fail_def)
qed

theorem invalid_key_rejected_witness:
  "length (Split ''only-one-part'' newline) = 1
   \<and> Handler (sample_deps [])
        (sample_ctx\<lparr>channel := Some \<lparr>Key = ''only-one-part'', BaseURL = None\<rparr>\<rparr>) ''claude-2.1''
      = \<lparr>result = Returned (Some \<lparr>StatusCode = 500, Message = ''newAwsClient: invalid key''\<rparr>,
                            None),
         effects = []\<rparr>
   \<and> StreamHandler (sample_deps [])
        (sample_ctx\<lparr>channel := Some \<lparr>Key = ''only-one-part'', BaseURL = None\<rparr>\<rparr>) 1700000000 5
      = \<lparr>result = Returned (Some \<lparr>StatusCode = 500, Message = ''newAwsClient: invalid key''\<rparr>,
                            None),
         effects = []\<rparr>"
proof -
  let ?ch = "\<lparr>Key = ''only-one-part'', BaseURL = None\<rparr>"
  have len: "length (Split ''only-one-part'' newline) = 1"
    by (simp add: newline_def)
  have c: "channel (sample_ctx\<lparr>channel := Some ?ch\<rparr>) = Some ?ch"
    by simp
  have k: "length (Split (Key ?ch) newline) \<noteq> 2"
    using len by simp
  show ?thesis
    using invalid_key_rejected [OF c k, of "sample_deps []" "''claude-2.1''" 1700000000 5] len
    by (simp add: wrapErr_def sample_deps_def)
qed

section \<open>The unary handler\<close>

text \<open>
  C5. When every step up to decoding the provider's reply succeeds, the response
  written has the \<open>modelName\<close> the caller passed as its model, whatever model the
  converter put there, and its usage, also the usage returned, has the native input
  tokens as prompt tokens, the native output tokens as completion tokens and their sum
  as total, whatever total the converter put there. The rest of the response is the
  converter's.
\<close>

theorem Handler_translates:
  assumes "channel c = Some ch"
    and "newAwsClient ch = Returned (Inr cli)"
    and "awsModelID (request_model c) = Inr modelId"
    and "converted_request c = Some claudeReq"
    and "copier_Copy d (new_Request d ''bedrock-2023-05-31'') claudeReq = Inr awsClaudeReq"
    and "json_Marshal_Request d awsClaudeReq = Inr body"
    and "InvokeModel d cli
           \<lparr>ModelId = modelId, Accept = ''application/json'',
            ContentType = ''application/json'', Body = body\<rparr> = Inr respBody"
    and "json_Unmarshal_Response d respBody = Inr claudeResponse"
  shows "Handler d c modelName =
           \<lparr>result =
              Returned
                (None,
                 Some \<lparr>PromptTokens = InputTokens (claude_Usage claudeResponse),
                   CompletionTokens = OutputTokens (claude_Usage claudeResponse),
                   TotalTokens = InputTokens (claude_Usage claudeResponse)
                                 + OutputTokens (claude_Usage claudeResponse)\<rparr>),
            effects =
              [Call_InvokeModel cli
                 \<lparr>ModelId = modelId, Accept = ''application/json'',
                  ContentType = ''application/json'', Body = body\<rparr>,
               Write_JSON 200
                 \<lparr>text_Model = modelName,
                  text_Usage =
                    \<lparr>PromptTokens = InputTokens (claude_Usage claudeResponse),
                   CompletionTokens = OutputTokens (claude_Usage claudeResponse),
                   TotalTokens = InputTokens (claude_Usage claudeResponse)
                                 + OutputTokens (claude_Usage claudeResponse)\<rparr>,
                  text_rest = text_rest (ResponseClaude2OpenAI d claudeResponse)\<rparr>]\<rparr>"
  using assms by (simp add: Handler_def Let_def)

theorem Handler_translates_witness:
  "Handler (sample_deps []) sample_ctx ''asked-model'' =
     \<lparr>result = Returned (None, Some \<lparr>PromptTokens = 10, CompletionTokens = 5, TotalTokens = 15\<rparr>),
      effects =
        [Call_InvokeModel \<lparr>Region = ''us-east-1'', AccessKey = ''AKIA'', SecretKey = ''secret''\<rparr>
           \<lparr>ModelId = ''anthropic.claude-v2:1'', Accept = ''application/json'',
            ContentType = ''application/json'', Body = ''bedrock-2023-05-31''\<rparr>,
         Write_JSON 200
           \<lparr>text_Model = ''asked-model'',
            text_Usage = \<lparr>PromptTokens = 10, CompletionTokens = 5, TotalTokens = 15\<rparr>,
            text_rest = ()\<rparr>]\<rparr>"
  using Handler_translates [OF sample_setup sample_calls(2) sample_calls(3),
          of "[]" "''asked-model''"]
  by (simp add: sample_deps_def)

section \<open>The streaming handler\<close>

text \<open>
  C1. The loop adds the input and output tokens of each metadata event to
  \<open>PromptTokens\<close> and \<open>CompletionTokens\<close>, but nothing in the streaming handler
  assigns \<open>TotalTokens\<close>, which the unary handler sets to their sum. On a stream of a
  metadata event, a content event and a second metadata event, each metadata event
  with 10 input and 5 output tokens, the usage returned has 20 prompt tokens, 10
  completion tokens and 0 total tokens, not 30.
\<close>

theorem StreamHandler_total_tokens_stay_zero:
  "result (StreamHandler
       (sample_deps [ResponseStreamMemberChunk ''Mmsg_1'', ResponseStreamMemberChunk ''hello'',
                     ResponseStreamMemberChunk ''Mmsg_1''])
       sample_ctx 1700000000 5)
     = Returned (None, Some \<lparr>PromptTokens = 20, CompletionTokens = 10, TotalTokens = 0\<rparr>)"
  by code_simp

text \<open>
  C2. Once the stream is open, the frames written are those of the content events the
  loop took from the channel, in order, and then the terminator if the loop saw the
  channel closed. Each content frame is the event's chunk with its identifier replaced
  by \<open>chatcmpl-\<close> and the identifier of the last metadata event before it (by the empty
  string when there was none), its model by the context's origin model and its
  creation time by the time read when the handler started, marshalled behind
  \<open>data: \<close>.
\<close>

theorem StreamHandler_frames_stamped:
  assumes "channel c = Some ch"
    and "newAwsClient ch = Returned (Inr cli)"
    and "awsModelID (request_model c) = Inr modelId"
    and "converted_request c = Some claudeReq"
    and "copier_Copy d (new_Request d ''bedrock-2023-05-31'') claudeReq = Inr awsClaudeReq"
    and "json_Marshal_Request d awsClaudeReq = Inr body"
    and "InvokeModelWithResponseStream d cli
           \<lparr>ModelId = modelId, Accept = ''application/json'',
            ContentType = ''application/json'', Body = body\<rparr> = Inr evs"
  shows "rendered (effects (StreamHandler d c now rounds)) =
           frames d (origin_model c) now [] (observed d rounds evs)
           @ (if closes d rounds evs then [''data: [DONE]''] else [])"
  using assms by (rule StreamHandler_opened(2))

text \<open>
  One metadata event followed by three content events: the three frames carry the
  identifier made from the metadata event.
\<close>

theorem StreamHandler_frames_stamped_witness:
  "rendered (effects (StreamHandler
       (sample_deps [ResponseStreamMemberChunk ''Mabc'', ResponseStreamMemberChunk ''one'',
                     ResponseStreamMemberChunk ''two'', ResponseStreamMemberChunk ''three''])
       sample_ctx 1700000000 10))
     = [''data: {id=chatcmpl-abc,model=my-claude,text=one}'',
        ''data: {id=chatcmpl-abc,model=my-claude,text=two}'',
        ''data: {id=chatcmpl-abc,model=my-claude,text=three}'', ''data: [DONE]'']"
proof -
  let ?evs = "[ResponseStreamMemberChunk ''Mabc'', ResponseStreamMemberChunk ''one'',
               ResponseStreamMemberChunk ''two'', ResponseStreamMemberChunk ''three'']"
  let ?d = "sample_deps ?evs"
  have "rendered (effects (StreamHandler ?d sample_ctx 1700000000 10)) =
          frames ?d (origin_model sample_ctx) 1700000000 [] (observed ?d 10 ?evs)
          @ (if closes ?d 10 ?evs then [''data: [DONE]''] else [])"
    by (rule StreamHandler_frames_stamped [OF sample_setup sample_calls(1)])
  also have "\<dots> = [''data: {id=chatcmpl-abc,model=my-claude,text=one}'',
                   ''data: {id=chatcmpl-abc,model=my-claude,text=two}'',
                   ''data: {id=chatcmpl-abc,model=my-claude,text=three}'', ''data: [DONE]'']"
    by code_simp
  finally show ?thesis .
qed

text \<open>
  A content event before any metadata event is written with the empty identifier
  (the converter's own is overwritten, none is generated), and content events
  separated by a second metadata event carry different identifiers.
\<close>

theorem StreamHandler_frame_ids_counterexample:
  "rendered (effects (StreamHandler
       (sample_deps [ResponseStreamMemberChunk ''hello'', ResponseStreamMemberChunk ''Mabc'',
                     ResponseStreamMemberChunk ''world'', ResponseStreamMemberChunk ''Mxyz'',
                     ResponseStreamMemberChunk ''again'']) sample_ctx 1700000000 10))
     = [''data: {id=,model=my-claude,text=hello}'',
        ''data: {id=chatcmpl-abc,model=my-claude,text=world}'',
        ''data: {id=chatcmpl-xyz,model=my-claude,text=again}'', ''data: [DONE]'']"
  by code_simp

text \<open>
  C7. When no event of the stream is fatal and the client stays until the loop sees
  the channel closed, the frames written are the content frames of all events, in
  order, followed by one \<open>data: [DONE]\<close>; that frame is not among the content frames
  when marshalling a chunk never yields the text \<open>[DONE]\<close> (a marshalled struct is a
  JSON object).
\<close>

theorem StreamHandler_done_once:
  assumes "channel c = Some ch"
    and "newAwsClient ch = Returned (Inr cli)"
    and "awsModelID (request_model c) = Inr modelId"
    and "converted_request c = Some claudeReq"
    and "copier_Copy d (new_Request d ''bedrock-2023-05-31'') claudeReq = Inr awsClaudeReq"
    and "json_Marshal_Request d awsClaudeReq = Inr body"
    and "InvokeModelWithResponseStream d cli
           \<lparr>ModelId = modelId, Accept = ''application/json'',
            ContentType = ''application/json'', Body = body\<rparr> = Inr evs"
    and "list_all (\<lambda>e. \<not> fatal d e) evs"
    and "length evs < rounds"
    and "\<forall>r. json_Marshal_StreamResponse d r \<noteq> Inr ''[DONE]''"
  shows "rendered (effects (StreamHandler d c now rounds)) =
           frames d (origin_model c) now [] evs @ [''data: [DONE]'']
         \<and> ''data: [DONE]'' \<notin> set (frames d (origin_model c) now [] evs)"
proof -
  have "observed d rounds evs = evs" and "closes d rounds evs"
    using assms(8,9) by (simp_all add: observed_all closes_def)
  with StreamHandler_opened(2) [OF assms(1-7), of now rounds] done_not_in_frames [OF assms(10)]
  show ?thesis by simp
qed

theorem StreamHandler_done_once_witness:
  "rendered (effects (StreamHandler
       (sample_deps [ResponseStreamMemberChunk ''Mabc'', ResponseStreamMemberChunk ''one'',
                     ResponseStreamMemberChunk [], ResponseStreamMemberChunk ''two''])
       sample_ctx 1700000000 5))
     = [''data: {id=chatcmpl-abc,model=my-claude,text=one}'',
        ''data: {id=chatcmpl-abc,model=my-claude,text=two}'',
        ''data: [DONE]'']"
proof -
  let ?evs = "[ResponseStreamMemberChunk ''Mabc'', ResponseStreamMemberChunk ''one'',
               ResponseStreamMemberChunk [], ResponseStreamMemberChunk ''two'']"
  let ?d = "sample_deps ?evs"
  have ok: "list_all (\<lambda>e. \<not> fatal ?d e) ?evs"
    by code_simp
  have "length ?evs < 5"
    by simp
  from StreamHandler_done_once [OF sample_setup sample_calls(1) ok this sample_marshal_not_done]
  have "rendered (effects (StreamHandler ?d sample_ctx 1700000000 5)) =
          frames ?d (origin_model sample_ctx) 1700000000 [] ?evs @ [''data: [DONE]'']"
    by simp
  also have "\<dots> = [''data: {id=chatcmpl-abc,model=my-claude,text=one}'',
                   ''data: {id=chatcmpl-abc,model=my-claude,text=two}'', ''data: [DONE]'']"
    by code_simp
  finally show ?thesis .
qed

text \<open>
  C8. When the loop reaches a fatal event (an unknown member, a chunk that does not
  decode, anything that is not a chunk) after events \<open>pre\<close> that are not fatal, the
  handler still returns a usage, with the token sums over the metadata of \<open>pre\<close>; the
  frames written are the content frames of \<open>pre\<close> and nothing after them: no
  terminator, and nothing from the events behind the fatal one.
\<close>

theorem StreamHandler_fatal_event:
  assumes "channel c = Some ch"
    and "newAwsClient ch = Returned (Inr cli)"
    and "awsModelID (request_model c) = Inr modelId"
    and "converted_request c = Some claudeReq"
    and "copier_Copy d (new_Request d ''bedrock-2023-05-31'') claudeReq = Inr awsClaudeReq"
    and "json_Marshal_Request d awsClaudeReq = Inr body"
    and "InvokeModelWithResponseStream d cli
           \<lparr>ModelId = modelId, Accept = ''application/json'',
            ContentType = ''application/json'', Body = body\<rparr> = Inr evs"
    and "evs = pre @ bad # post"
    and "list_all (\<lambda>e. \<not> fatal d e) pre"
    and "fatal d bad"
    and "length pre < rounds"
    and "\<forall>r. json_Marshal_StreamResponse d r \<noteq> Inr ''[DONE]''"
  shows "result (StreamHandler d c now rounds) =
           Returned (None, Some \<lparr>PromptTokens = input_sum (metas d pre),
                                 CompletionTokens = output_sum (metas d pre),
                                 TotalTokens = 0\<rparr>)
         \<and> rendered (effects (StreamHandler d c now rounds)) = frames d (origin_model c) now [] pre
         \<and> ''data: [DONE]'' \<notin> set (rendered (effects (StreamHandler d c now rounds)))"
proof -
  have obs: "observed d rounds (pre @ bad # post) = pre @ [bad]"
    using assms(9-11) by (simp add: observed_upto_fatal)
  have m: "metas d (pre @ [bad]) = metas d pre"
    using assms(10) by (auto simp: metas_append fatal_def split: kind.splits)
  have r: "rendered (effects (StreamHandler d c now rounds)) = frames d (origin_model c) now [] pre"
    using StreamHandler_opened(2) [OF assms(1-7), of now rounds] assms(10)
    by (simp add: assms(8) obs frames_snoc_fatal closes_fatal)
  show ?thesis
    using StreamHandler_opened(1) [OF assms(1-7), of now rounds] r
      done_not_in_frames [OF assms(12)]
    by (simp add: assms(8) obs m)
qed

theorem StreamHandler_fatal_event_witness:
  "result (StreamHandler
       (sample_deps [ResponseStreamMemberChunk ''Mabc'', ResponseStreamMemberChunk ''one'',
                     UnknownUnionMember ''unknown'', ResponseStreamMemberChunk ''Mxyz'',
                     ResponseStreamMemberChunk ''two''])
       sample_ctx 1700000000 9)
     = Returned (None, Some \<lparr>PromptTokens = 10, CompletionTokens = 5, TotalTokens = 0\<rparr>)
   \<and> rendered (effects (StreamHandler
       (sample_deps [ResponseStreamMemberChunk ''Mabc'', ResponseStreamMemberChunk ''one'',
                     UnknownUnionMember ''unknown'', ResponseStreamMemberChunk ''Mxyz'',
                     ResponseStreamMemberChunk ''two''])
       sample_ctx 1700000000 9))
     = [''data: {id=chatcmpl-abc,model=my-claude,text=one}'']"
proof -
  let ?pre = "[ResponseStreamMemberChunk ''Mabc'', ResponseStreamMemberChunk ''one'']"
  let ?post = "[ResponseStreamMemberChunk ''Mxyz'', ResponseStreamMemberChunk ''two'']"
  let ?evs = "[ResponseStreamMemberChunk ''Mabc'', ResponseStreamMemberChunk ''one'',
               UnknownUnionMember ''unknown'', ResponseStreamMemberChunk ''Mxyz'',
               ResponseStreamMemberChunk ''two'']"
  let ?d = "sample_deps ?evs"
  have evs: "?evs = ?pre @ UnknownUnionMember ''unknown'' # ?post"
    by simp
  have ok: "list_all (\<lambda>e. \<not> fatal ?d e) ?pre"
    by code_simp
  have bad: "fatal ?d (UnknownUnionMember ''unknown'')"
    by (simp add: fatal_def kind_of_def)
  have len: "length ?pre < 9"
    by simp
  have sums: "input_sum (metas ?d ?pre) = 10" "output_sum (metas ?d ?pre) = 5"
    by code_simp+
  have fr: "frames ?d (origin_model sample_ctx) 1700000000 [] ?pre
              = [''data: {id=chatcmpl-abc,model=my-claude,text=one}'']"
    by code_simp
  note run = StreamHandler_fatal_event
         [OF sample_setup sample_calls(1) evs ok bad len sample_marshal_not_done,
          where now = 1700000000]
  show ?thesis
    using run [unfolded sums fr] by blast
qed

text \<open>
  C10. When the chunk of a content event, stamped, does not marshal, the loop body
  logs the error, writes no frame, leaves \<open>usage\<close> and \<open>id\<close> as they are and returns
  true: the loop goes on with the events that follow.
\<close>

theorem marshal_failure_skips_frame:
  assumes "events s = ResponseStreamMemberChunk bs # rest"
    and "json_Decode_StreamResponse d bs = Inr claudeResp"
    and "StreamResponseClaude2OpenAI d claudeResp = (Some r, None)"
    and "json_Marshal_StreamResponse d
           (r\<lparr>chunk_Id := id_var s, chunk_Model := originModel, chunk_Created := createdTime\<rparr>)
         = Inl e"
  shows "step d originModel createdTime s =
           (True, s\<lparr>events := rest,
                    trace := trace s
                      @ [SysError (''error marshalling stream response: '' @ Error e)]\<rparr>)
         \<and> Stream (step d originModel createdTime) (Suc n) s =
             Stream (step d originModel createdTime) n
               (s\<lparr>events := rest,
                  trace := trace s
                    @ [SysError (''error marshalling stream response: '' @ Error e)]\<rparr>)"
  using assms by (simp add: step_def)

theorem marshal_failure_skips_frame_witness:
  "Stream (step (sample_deps []) ''my-claude'' 1700000000) (Suc 2)
     \<lparr>events = [ResponseStreamMemberChunk ''unmarshalable'', ResponseStreamMemberChunk ''next''],
      usage = \<lparr>PromptTokens = 10, CompletionTokens = 5, TotalTokens = 0\<rparr>,
      id_var = ''chatcmpl-abc'', trace = []\<rparr>
   = \<lparr>events = [],
      usage = \<lparr>PromptTokens = 10, CompletionTokens = 5, TotalTokens = 0\<rparr>,
      id_var = ''chatcmpl-abc'',
      trace = [SysError ''error marshalling stream response: unsupported value'',
               Render ''data: {id=chatcmpl-abc,model=my-claude,text=next}'',
               Render ''data: [DONE]'']\<rparr>"
proof -
  let ?d = "sample_deps [] :: (unit, string, string, unit, string) deps"
  let ?init = "\<lparr>events = [ResponseStreamMemberChunk ''unmarshalable'',
                         ResponseStreamMemberChunk ''next''],
               usage = \<lparr>PromptTokens = 10, CompletionTokens = 5, TotalTokens = 0\<rparr>,
               id_var = ''chatcmpl-abc'', trace = []\<rparr> :: (unit, string) pump"
  have ev: "events ?init = ResponseStreamMemberChunk ''unmarshalable''
                           # [ResponseStreamMemberChunk ''next'']"
    by simp
  have dec: "json_Decode_StreamResponse ?d ''unmarshalable'' = Inr ''unmarshalable''"
    by (simp add: sample_deps_def)
  have conv: "StreamResponseClaude2OpenAI ?d ''unmarshalable'' =
                (Some \<lparr>chunk_Id = ''native-id'', chunk_Model = ''native-model'',
                       chunk_Created = 0, chunk_rest = ''unmarshalable''\<rparr>, None)"
    by (simp add: sample_deps_def sample_convert_def)
  have mar: "json_Marshal_StreamResponse ?d
               (\<lparr>chunk_Id = ''native-id'', chunk_Model = ''native-model'',
                 chunk_Created = 0, chunk_rest = ''unmarshalable''\<rparr>
                  \<lparr>chunk_Id := id_var ?init, chunk_Model := ''my-claude'',
                   chunk_Created := 1700000000\<rparr>)
             = Inl (ErrNew ''unsupported value'')"
    by (simp add: sample_deps_def sample_marshal_def)
  note skip = marshal_failure_skips_frame [OF ev dec conv mar, of 2, THEN conjunct2]
  have "Stream (step ?d ''my-claude'' 1700000000) (Suc 2) ?init =
          Stream (step ?d ''my-claude'' 1700000000) 2
            (?init\<lparr>events := [ResponseStreamMemberChunk ''next''],
                   trace := trace ?init
                     @ [SysError (''error marshalling stream response: ''
                                  @ Error (ErrNew ''unsupported value''))]\<rparr>)"
    by (rule skip)
  also have "\<dots> = \<lparr>events = [],
      usage = \<lparr>PromptTokens = 10, CompletionTokens = 5, TotalTokens = 0\<rparr>,
      id_var = ''chatcmpl-abc'',
      trace = [SysError ''error marshalling stream response: unsupported value'',
               Render ''data: {id=chatcmpl-abc,model=my-claude,text=next}'',
               Render ''data: [DONE]'']\<rparr>"
    by code_simp
  finally show ?thesis .
qed

end
